theory Spec2Isabelle
  imports Main "HOL-Library.Word"
begin

unbundle bit_operations_syntax

text \<open>
  The verification core of the product tracker: the product hash and the QR payload codec
  of \<open>src/lib/hash.ts\<close>, \<open>verifyProduct\<close> and \<open>recordScan\<close> of the scan page, and
  \<open>handleSubmit\<close> of the admin page. The platform functions the code calls
  (\<open>TextEncoder\<close>, SHA-256, \<open>btoa\<close>, \<open>atob\<close>, \<open>JSON.stringify\<close>, \<open>JSON.parse\<close>) are
  modelled in full; the database, the clock, the signed-in user and the QR code renderer
  are parameters.
\<close>

section \<open>JavaScript strings and bytes\<close>

text \<open>
  A JavaScript string is a sequence of UTF-16 code units, so a character above U+00FF
  (which \<open>btoa\<close> rejects) is representable. \<open>js\<close> embeds an ASCII literal.
\<close>

type_synonym code_unit = "16 word"
type_synonym jsstring = "code_unit list"
type_synonym byte = "8 word"

definition js :: "string \<Rightarrow> jsstring" where
  "js s = map (\<lambda>c. of_nat (of_char c)) s"

definition is_high_surrogate :: "code_unit \<Rightarrow> bool" where
  "is_high_surrogate c \<longleftrightarrow> 0xD800 \<le> c \<and> c \<le> 0xDBFF"

definition is_low_surrogate :: "code_unit \<Rightarrow> bool" where
  "is_low_surrogate c \<longleftrightarrow> 0xDC00 \<le> c \<and> c \<le> 0xDFFF"

text \<open>The code point of a surrogate pair.\<close>

definition pair_code_point :: "code_unit \<Rightarrow> code_unit \<Rightarrow> nat" where
  "pair_code_point hi lo = 0x10000 + (unat hi - 0xD800) * 0x400 + (unat lo - 0xDC00)"

subsection \<open>\<open>TextEncoder.encode\<close>: UTF-8, lone surrogates replaced by U+FFFD\<close>

definition utf8_code_point :: "nat \<Rightarrow> byte list" where
  "utf8_code_point cp =
     (if cp < 0x80 then [of_nat cp]
      else if cp < 0x800 then [of_nat (0xC0 + cp div 0x40), of_nat (0x80 + cp mod 0x40)]
      else if cp < 0x10000 then
        [of_nat (0xE0 + cp div 0x1000), of_nat (0x80 + cp div 0x40 mod 0x40),
         of_nat (0x80 + cp mod 0x40)]
      else
        [of_nat (0xF0 + cp div 0x40000), of_nat (0x80 + cp div 0x1000 mod 0x40),
         of_nat (0x80 + cp div 0x40 mod 0x40), of_nat (0x80 + cp mod 0x40)])"

fun TextEncoder_encode :: "jsstring \<Rightarrow> byte list" where
  "TextEncoder_encode [] = []"
| "TextEncoder_encode [c] =
     (if is_high_surrogate c \<or> is_low_surrogate c then utf8_code_point 0xFFFD
      else utf8_code_point (unat c))"
| "TextEncoder_encode (c # d # ds) =
     (if is_high_surrogate c \<and> is_low_surrogate d
        then utf8_code_point (pair_code_point c d) @ TextEncoder_encode ds
      else if is_high_surrogate c \<or> is_low_surrogate c
        then utf8_code_point 0xFFFD @ TextEncoder_encode (d # ds)
      else utf8_code_point (unat c) @ TextEncoder_encode (d # ds))"

section \<open>\<open>crypto.subtle.digest('SHA-256', data)\<close>\<close>

text \<open>SHA-256 as in FIPS 180-4, on a byte string.\<close>

type_synonym w32 = "32 word"

definition K256 :: "w32 list" where
  "K256 =
     [0x428a2f98, 0x71374491, 0xb5c0fbcf, 0xe9b5dba5, 0x3956c25b, 0x59f111f1, 0x923f82a4, 0xab1c5ed5]
     @ [0xd807aa98, 0x12835b01, 0x243185be, 0x550c7dc3, 0x72be5d74, 0x80deb1fe, 0x9bdc06a7, 0xc19bf174]
     @ [0xe49b69c1, 0xefbe4786, 0x0fc19dc6, 0x240ca1cc, 0x2de92c6f, 0x4a7484aa, 0x5cb0a9dc, 0x76f988da]
     @ [0x983e5152, 0xa831c66d, 0xb00327c8, 0xbf597fc7, 0xc6e00bf3, 0xd5a79147, 0x06ca6351, 0x14292967]
     @ [0x27b70a85, 0x2e1b2138, 0x4d2c6dfc, 0x53380d13, 0x650a7354, 0x766a0abb, 0x81c2c92e, 0x92722c85]
     @ [0xa2bfe8a1, 0xa81a664b, 0xc24b8b70, 0xc76c51a3, 0xd192e819, 0xd6990624, 0xf40e3585, 0x106aa070]
     @ [0x19a4c116, 0x1e376c08, 0x2748774c, 0x34b0bcb5, 0x391c0cb3, 0x4ed8aa4a, 0x5b9cca4f, 0x682e6ff3]
     @ [0x748f82ee, 0x78a5636f, 0x84c87814, 0x8cc70208, 0x90befffa, 0xa4506ceb, 0xbef9a3f7, 0xc67178f2]"

record sha_state =
  sa :: w32
  sb :: w32
  sc :: w32
  sd :: w32
  se :: w32
  sf :: w32
  sg :: w32
  sh :: w32

definition H0 :: sha_state where
  "H0 = \<lparr>sa = 0x6a09e667, sb = 0xbb67ae85, sc = 0x3c6ef372, sd = 0xa54ff53a,
         se = 0x510e527f, sf = 0x9b05688c, sg = 0x1f83d9ab, sh = 0x5be0cd19\<rparr>"

definition Ch :: "w32 \<Rightarrow> w32 \<Rightarrow> w32 \<Rightarrow> w32" where
  "Ch x y z = (x AND y) XOR (NOT x AND z)"

definition Maj :: "w32 \<Rightarrow> w32 \<Rightarrow> w32 \<Rightarrow> w32" where
  "Maj x y z = (x AND y) XOR (x AND z) XOR (y AND z)"

definition Sigma0 :: "w32 \<Rightarrow> w32" where
  "Sigma0 x = word_rotr 2 x XOR word_rotr 13 x XOR word_rotr 22 x"

definition Sigma1 :: "w32 \<Rightarrow> w32" where
  "Sigma1 x = word_rotr 6 x XOR word_rotr 11 x XOR word_rotr 25 x"

definition sigma0 :: "w32 \<Rightarrow> w32" where
  "sigma0 x = word_rotr 7 x XOR word_rotr 18 x XOR drop_bit 3 x"

definition sigma1 :: "w32 \<Rightarrow> w32" where
  "sigma1 x = word_rotr 17 x XOR word_rotr 19 x XOR drop_bit 10 x"

text \<open>Padding: a 1 bit, zeros up to 56 mod 64 bytes, the bit length as 64 bits big-endian.\<close>

definition be_bytes :: "nat \<Rightarrow> nat \<Rightarrow> byte list" where
  "be_bytes n v = map (\<lambda>i. of_nat (v div 256 ^ (n - 1 - i))) [0..<n]"

definition sha_pad :: "byte list \<Rightarrow> byte list" where
  "sha_pad m =
     m @ [0x80] @ replicate ((119 - length m mod 64) mod 64) 0
       @ be_bytes 8 (8 * length m mod 2 ^ 64)"

definition be_word :: "byte list \<Rightarrow> w32" where
  "be_word bs = foldl (\<lambda>acc b. push_bit 8 acc OR ucast b) 0 bs"

definition split_every :: "nat \<Rightarrow> 'a list \<Rightarrow> 'a list list" where
  "split_every n xs = map (\<lambda>i. take n (drop (n * i) xs)) [0..<length xs div n]"

definition block_words :: "byte list \<Rightarrow> w32 list" where
  "block_words blk = map be_word (split_every 4 blk)"

text \<open>The message schedule: 16 words of the block extended to 64.\<close>

definition schedule_step :: "w32 list \<Rightarrow> w32 list" where
  "schedule_step w =
     (let t = length w
      in w @ [sigma1 (w ! (t - 2)) + w ! (t - 7) + sigma0 (w ! (t - 15)) + w ! (t - 16)])"

definition schedule :: "w32 list \<Rightarrow> w32 list" where
  "schedule w = (schedule_step ^^ 48) w"

definition sha_round :: "sha_state \<Rightarrow> w32 \<times> w32 \<Rightarrow> sha_state" where
  "sha_round s kw =
     (let t1 = sh s + Sigma1 (se s) + Ch (se s) (sf s) (sg s) + fst kw + snd kw;
          t2 = Sigma0 (sa s) + Maj (sa s) (sb s) (sc s)
      in \<lparr>sa = t1 + t2, sb = sa s, sc = sb s, sd = sc s,
          se = sd s + t1, sf = se s, sg = sf s, sh = sg s\<rparr>)"

definition compress :: "sha_state \<Rightarrow> byte list \<Rightarrow> sha_state" where
  "compress s blk =
     (let r = foldl sha_round s (zip K256 (schedule (block_words blk)))
      in \<lparr>sa = sa s + sa r, sb = sb s + sb r, sc = sc s + sc r, sd = sd s + sd r,
          se = se s + se r, sf = sf s + sf r, sg = sg s + sg r, sh = sh s + sh r\<rparr>)"

definition word_bytes :: "w32 \<Rightarrow> byte list" where
  "word_bytes w = [ucast (drop_bit 24 w), ucast (drop_bit 16 w), ucast (drop_bit 8 w), ucast w]"

definition sha256 :: "byte list \<Rightarrow> byte list" where
  "sha256 m =
     (let s = foldl compress H0 (split_every 64 (sha_pad m))
      in word_bytes (sa s) @ word_bytes (sb s) @ word_bytes (sc s) @ word_bytes (sd s)
       @ word_bytes (se s) @ word_bytes (sf s) @ word_bytes (sg s) @ word_bytes (sh s))"

section \<open>\<open>src/lib/hash.ts\<close>: the product hash\<close>

record product_fields =
  product_no :: jsstring
  product_name :: jsstring
  brand :: jsstring
  manufacture_date :: jsstring
  expiry_date :: jsstring

text \<open>The template literal of \<open>generateProductHash\<close>.\<close>

definition dataString :: "product_fields \<Rightarrow> jsstring" where
  "dataString p =
     product_no p @ js ''|'' @ product_name p @ js ''|'' @ brand p @ js ''|''
       @ manufacture_date p @ js ''|'' @ expiry_date p"

text \<open>\<open>b.toString(16)\<close> for a byte, and \<open>padStart\<close> with a one-character filler.\<close>

definition hex_digit :: "nat \<Rightarrow> code_unit" where
  "hex_digit d = (if d < 10 then of_nat (48 + d) else of_nat (87 + d))"

text \<open>The digits of a lowercase hexadecimal string.\<close>

definition is_lower_hex :: "code_unit \<Rightarrow> bool" where
  "is_lower_hex c \<longleftrightarrow> (0x30 \<le> c \<and> c \<le> 0x39) \<or> (0x61 \<le> c \<and> c \<le> 0x66)"

definition toString16 :: "byte \<Rightarrow> jsstring" where
  "toString16 b =
     (if unat b < 16 then [hex_digit (unat b)]
      else [hex_digit (unat b div 16), hex_digit (unat b mod 16)])"

definition padStart :: "nat \<Rightarrow> code_unit \<Rightarrow> jsstring \<Rightarrow> jsstring" where
  "padStart n c s = replicate (n - length s) c @ s"

definition generateProductHash :: "product_fields \<Rightarrow> jsstring" where
  "generateProductHash p =
     (let data = TextEncoder_encode (dataString p);
          hashArray = sha256 data
      in concat (map (\<lambda>b. padStart 2 0x30 (toString16 b)) hashArray))"

definition verifyProductHash :: "jsstring \<Rightarrow> product_fields \<Rightarrow> bool" where
  "verifyProductHash storedHash p = (storedHash = generateProductHash p)"


section \<open>Exceptions\<close>

text \<open>A thrown exception is the \<open>Inl\<close> of a result; \<open>Inr\<close> is a normal return.\<close>

datatype js_error = InvalidCharacterError | SyntaxError | OtherError

section \<open>\<open>btoa\<close> and \<open>atob\<close>\<close>

text \<open>
  \<open>btoa\<close> throws on a code unit above U+00FF; otherwise each code unit is one byte and
  the result is padded base64.
\<close>

definition b64_char :: "nat \<Rightarrow> code_unit" where
  "b64_char n =
     (if n < 26 then of_nat (65 + n)
      else if n < 52 then of_nat (97 + (n - 26))
      else if n < 62 then of_nat (48 + (n - 52))
      else if n = 62 then 0x2B
      else 0x2F)"

text \<open>Bytes to 6-bit groups; the last group is filled with zero bits.\<close>

fun sextets :: "nat list \<Rightarrow> nat list" where
  "sextets [] = []"
| "sextets [a] = [a div 4, a mod 4 * 16]"
| "sextets [a, b] = [a div 4, a mod 4 * 16 + b div 16, b mod 16 * 4]"
| "sextets (a # b # c # bs) =
     [a div 4, a mod 4 * 16 + b div 16, b mod 16 * 4 + c div 64, c mod 64] @ sextets bs"

definition btoa :: "jsstring \<Rightarrow> js_error + jsstring" where
  "btoa s =
     (if \<exists>c \<in> set s. 0xFF < c then Inl InvalidCharacterError
      else Inr (map b64_char (sextets (map unat s))
                @ replicate ((3 - length s mod 3) mod 3) 0x3D))"

text \<open>
  \<open>atob\<close> is the forgiving base64 decoder: ASCII whitespace is removed, up to two
  trailing \<open>=\<close> are removed when the length is a multiple of four, a length of 1 mod 4
  or a character outside the alphabet throws, and left-over bits are discarded.
\<close>

definition is_ascii_whitespace :: "code_unit \<Rightarrow> bool" where
  "is_ascii_whitespace c \<longleftrightarrow> c = 0x09 \<or> c = 0x0A \<or> c = 0x0C \<or> c = 0x0D \<or> c = 0x20"

definition b64_value :: "code_unit \<Rightarrow> nat option" where
  "b64_value c =
     (if 0x41 \<le> c \<and> c \<le> 0x5A then Some (unat c - 65)
      else if 0x61 \<le> c \<and> c \<le> 0x7A then Some (unat c - 97 + 26)
      else if 0x30 \<le> c \<and> c \<le> 0x39 then Some (unat c - 48 + 52)
      else if c = 0x2B then Some 62
      else if c = 0x2F then Some 63
      else None)"

definition strip_padding :: "jsstring \<Rightarrow> jsstring" where
  "strip_padding d =
     (if length d mod 4 = 0 then
        (case rev d of
           a # b # r \<Rightarrow> if a = 0x3D \<and> b = 0x3D then rev r
                        else if a = 0x3D then rev (b # r) else d
         | _ \<Rightarrow> d)
      else d)"

fun octets :: "nat list \<Rightarrow> nat list" where
  "octets (a # b # c # d # r) =
     [a * 4 + b div 16, b mod 16 * 16 + c div 4, c mod 4 * 64 + d] @ octets r"
| "octets [a, b, c] = [a * 4 + b div 16, b mod 16 * 16 + c div 4]"
| "octets [a, b] = [a * 4 + b div 16]"
| "octets [a] = []"
| "octets [] = []"

definition atob :: "jsstring \<Rightarrow> js_error + jsstring" where
  "atob s =
     (let d = strip_padding (filter (\<lambda>c. \<not> is_ascii_whitespace c) s)
      in if length d mod 4 = 1 then Inl InvalidCharacterError
         else (case those (map b64_value d) of
                 None \<Rightarrow> Inl InvalidCharacterError
               | Some vs \<Rightarrow> Inr (map of_nat (octets vs))))"

text \<open>The strings that \<open>btoa\<close> accepts: every code unit is at most U+00FF.\<close>

definition latin1 :: "jsstring \<Rightarrow> bool" where
  "latin1 s \<longleftrightarrow> list_all (\<lambda>c. c \<le> 0xFF) s"

section \<open>\<open>JSON.stringify\<close> of a payload\<close>

record QRPayload =
  hash :: jsstring
  payload_product_no :: jsstring

text \<open>\<open>\uXXXX\<close> with lowercase hexadecimal digits.\<close>

definition unicode_escape :: "code_unit \<Rightarrow> jsstring" where
  "unicode_escape c =
     [0x5C, 0x75, hex_digit (unat c div 4096), hex_digit (unat c div 256 mod 16),
      hex_digit (unat c div 16 mod 16), hex_digit (unat c mod 16)]"

text \<open>
  The characters of a quoted JSON string: the short escapes, \<open>\uXXXX\<close> for the other
  control characters and for lone surrogates, everything else as it is.
\<close>

definition quote_unit :: "code_unit \<Rightarrow> jsstring" where
  "quote_unit c =
     (if c = 0x08 then [0x5C, 0x62]
      else if c = 0x09 then [0x5C, 0x74]
      else if c = 0x0A then [0x5C, 0x6E]
      else if c = 0x0C then [0x5C, 0x66]
      else if c = 0x0D then [0x5C, 0x72]
      else if c = 0x22 then [0x5C, 0x22]
      else if c = 0x5C then [0x5C, 0x5C]
      else if c < 0x20 \<or> is_high_surrogate c \<or> is_low_surrogate c then unicode_escape c
      else [c])"

fun quote_units :: "jsstring \<Rightarrow> jsstring" where
  "quote_units [] = []"
| "quote_units [c] = quote_unit c"
| "quote_units (c # d # ds) =
     (if is_high_surrogate c \<and> is_low_surrogate d then c # d # quote_units ds
      else quote_unit c @ quote_units (d # ds))"

definition QuoteJSONString :: "jsstring \<Rightarrow> jsstring" where
  "QuoteJSONString s = [0x22] @ quote_units s @ [0x22]"

text \<open>The object literal has the properties \<open>hash\<close> and \<open>product_no\<close>, in this order.\<close>

definition JSON_stringify :: "QRPayload \<Rightarrow> jsstring" where
  "JSON_stringify p =
     js ''{'' @ QuoteJSONString (js ''hash'') @ js '':'' @ QuoteJSONString (hash p)
       @ js '','' @ QuoteJSONString (js ''product_no'') @ js '':''
       @ QuoteJSONString (payload_product_no p) @ js ''}''"

definition encodeQRPayload :: "QRPayload \<Rightarrow> js_error + jsstring" where
  "encodeQRPayload payload = btoa (JSON_stringify payload)"


section \<open>\<open>JSON.parse\<close>\<close>

text \<open>
  A parsed value. A number keeps its lexeme; an object keeps its members in the order they
  were written, duplicates included.
\<close>

datatype json =
    JNull
  | JBool bool
  | JNumber jsstring
  | JString jsstring
  | JArray "json list"
  | JObject "(jsstring \<times> json) list"

datatype token =
    TLBrace | TRBrace | TLBracket | TRBracket | TColon | TComma
  | TTrue | TFalse | TNull
  | TNumber jsstring
  | TString jsstring

subsection \<open>Strings\<close>

definition hex_value :: "code_unit \<Rightarrow> nat option" where
  "hex_value c =
     (if 0x30 \<le> c \<and> c \<le> 0x39 then Some (unat c - 48)
      else if 0x61 \<le> c \<and> c \<le> 0x66 then Some (unat c - 87)
      else if 0x41 \<le> c \<and> c \<le> 0x46 then Some (unat c - 55)
      else None)"

definition hex4 :: "code_unit \<Rightarrow> code_unit \<Rightarrow> code_unit \<Rightarrow> code_unit \<Rightarrow> code_unit option" where
  "hex4 a b c d =
     (case (hex_value a, hex_value b, hex_value c, hex_value d) of
        (Some x, Some y, Some z, Some w) \<Rightarrow> Some (of_nat (((x * 16 + y) * 16 + z) * 16 + w))
      | _ \<Rightarrow> None)"

text \<open>The character after a backslash, other than \<open>u\<close>.\<close>

definition simple_escape :: "code_unit \<Rightarrow> code_unit option" where
  "simple_escape e =
     (if e = 0x22 then Some 0x22
      else if e = 0x5C then Some 0x5C
      else if e = 0x2F then Some 0x2F
      else if e = 0x62 then Some 0x08
      else if e = 0x66 then Some 0x0C
      else if e = 0x6E then Some 0x0A
      else if e = 0x72 then Some 0x0D
      else if e = 0x74 then Some 0x09
      else None)"

definition cons_result :: "'a \<Rightarrow> ('a list \<times> 'b) option \<Rightarrow> ('a list \<times> 'b) option" where
  "cons_result x r = map_option (\<lambda>(xs, rest). (x # xs, rest)) r"

text \<open>
  The body of a string, after the opening quote: the characters up to the closing quote
  and the text after it. A control character, a bad escape and a missing closing quote
  are errors.
\<close>

fun lex_string :: "jsstring \<Rightarrow> (jsstring \<times> jsstring) option" where
  "lex_string [] = None"
| "lex_string (c # cs) =
     (if c = 0x22 then Some ([], cs)
      else if c = 0x5C then
        (case cs of
           [] \<Rightarrow> None
         | e # es \<Rightarrow>
             if e = 0x75 then
               (case es of
                  h1 # h2 # h3 # h4 # rest \<Rightarrow>
                    (case hex4 h1 h2 h3 h4 of
                       None \<Rightarrow> None
                     | Some u \<Rightarrow> cons_result u (lex_string rest))
                | _ \<Rightarrow> None)
             else
               (case simple_escape e of
                  None \<Rightarrow> None
                | Some u \<Rightarrow> cons_result u (lex_string es)))
      else if c < 0x20 then None
      else cons_result c (lex_string cs))"

subsection \<open>Numbers\<close>

definition is_digit :: "code_unit \<Rightarrow> bool" where
  "is_digit c \<longleftrightarrow> 0x30 \<le> c \<and> c \<le> 0x39"

text \<open>One or more digits.\<close>

definition lex_digits :: "jsstring \<Rightarrow> (jsstring \<times> jsstring) option" where
  "lex_digits cs =
     (if takeWhile is_digit cs = [] then None
      else Some (takeWhile is_digit cs, dropWhile is_digit cs))"

text \<open>The integer part: \<open>0\<close>, or a digit from 1 to 9 followed by digits.\<close>

definition lex_int :: "jsstring \<Rightarrow> (jsstring \<times> jsstring) option" where
  "lex_int cs =
     (case cs of
        [] \<Rightarrow> None
      | c # r \<Rightarrow>
          if c = 0x30 then Some ([c], r)
          else if is_digit c then Some (c # takeWhile is_digit r, dropWhile is_digit r)
          else None)"

definition lex_frac :: "jsstring \<Rightarrow> (jsstring \<times> jsstring) option" where
  "lex_frac cs =
     (case cs of
        [] \<Rightarrow> Some ([], [])
      | c # r \<Rightarrow> if c = 0x2E then cons_result c (lex_digits r) else Some ([], cs))"

definition lex_exp :: "jsstring \<Rightarrow> (jsstring \<times> jsstring) option" where
  "lex_exp cs =
     (case cs of
        [] \<Rightarrow> Some ([], [])
      | c # r \<Rightarrow>
          if c = 0x65 \<or> c = 0x45 then
            (case r of
               [] \<Rightarrow> None
             | s # r' \<Rightarrow>
                 if s = 0x2B \<or> s = 0x2D then cons_result c (cons_result s (lex_digits r'))
                 else cons_result c (lex_digits r))
          else Some ([], cs))"

definition lex_number :: "jsstring \<Rightarrow> (jsstring \<times> jsstring) option" where
  "lex_number cs =
     (let (sign, r0) = (case cs of
                          [] \<Rightarrow> ([], [])
                        | c # r \<Rightarrow> if c = 0x2D then ([c], r) else ([], cs))
      in case lex_int r0 of
           None \<Rightarrow> None
         | Some (i, r1) \<Rightarrow>
             (case lex_frac r1 of
                None \<Rightarrow> None
              | Some (f, r2) \<Rightarrow>
                  (case lex_exp r2 of
                     None \<Rightarrow> None
                   | Some (e, r3) \<Rightarrow> Some (sign @ i @ f @ e, r3))))"

subsection \<open>Tokens\<close>

definition is_json_whitespace :: "code_unit \<Rightarrow> bool" where
  "is_json_whitespace c \<longleftrightarrow> c = 0x09 \<or> c = 0x0A \<or> c = 0x0D \<or> c = 0x20"

definition punctuation :: "code_unit \<Rightarrow> token option" where
  "punctuation c =
     (if c = 0x7B then Some TLBrace
      else if c = 0x7D then Some TRBrace
      else if c = 0x5B then Some TLBracket
      else if c = 0x5D then Some TRBracket
      else if c = 0x3A then Some TColon
      else if c = 0x2C then Some TComma
      else None)"

lemma lex_string_shorter: "lex_string cs = Some (s, rest) \<Longrightarrow> length rest < length cs"
proof (induction cs arbitrary: s rest rule: length_induct)
  case (1 cs)
  then have IH: "\<And>ys s' r. length ys < length cs \<Longrightarrow> lex_string ys = Some (s', r)
      \<Longrightarrow> length r < length ys"
    by blast
  from "1.prems" obtain c cs' where cs: "cs = c # cs'"
    by (cases cs) auto
  show ?case
  proof (cases "c = 0x22")
    case True
    with "1.prems" cs show ?thesis by simp
  next
    case quote: False
    show ?thesis
    proof (cases "c = 0x5C")
      case False
      with quote "1.prems" cs obtain s' where "lex_string cs' = Some (s', rest)"
        by (auto simp: cons_result_def split: if_splits)
      from IH [OF _ this] cs show ?thesis by simp
    next
      case bs: True
      with quote "1.prems" cs obtain e es where cs': "cs' = e # es"
        by (cases cs') auto
      show ?thesis
      proof (cases "e = 0x75")
        case False
        with quote bs cs cs' "1.prems" obtain s' where "lex_string es = Some (s', rest)"
          by (auto simp: cons_result_def split: option.splits)
        from IH [OF _ this] cs cs' show ?thesis by simp
      next
        case u: True
        from quote bs cs cs' u "1.prems" obtain h1 h2 h3 h4 r where es: "es = h1 # h2 # h3 # h4 # r"
          by (simp split: list.splits)
        with quote bs cs cs' u "1.prems" obtain s' where "lex_string r = Some (s', rest)"
          by (auto simp: cons_result_def split: option.splits)
        from IH [OF _ this] cs cs' es show ?thesis by simp
      qed
    qed
  qed
qed

lemma lex_digits_shorter: "lex_digits cs = Some (ds, rest) \<Longrightarrow> length rest \<le> length cs"
  by (auto simp: lex_digits_def length_dropWhile_le split: if_splits)

lemma lex_number_shorter: "lex_number cs = Some (n, rest) \<Longrightarrow> length rest < length cs"
proof -
  assume a: "lex_number cs = Some (n, rest)"
  have int: "lex_int xs = Some (i, r) \<Longrightarrow> length r < length xs" for xs i r
    using length_dropWhile_le [of is_digit "tl xs"]
    by (cases xs) (auto simp: lex_int_def less_Suc_eq_le split: if_splits)
  have frac: "lex_frac xs = Some (f, r) \<Longrightarrow> length r \<le> length xs" for xs f r
    by (cases xs)
       (auto simp: lex_frac_def cons_result_def split: if_splits dest!: lex_digits_shorter)
  have exp: "lex_exp xs = Some (e, r) \<Longrightarrow> length r \<le> length xs" for xs e r
    by (cases xs)
       (auto simp: lex_exp_def cons_result_def split: if_splits list.splits
             dest!: lex_digits_shorter)
  obtain sign r0 where sr: "(case cs of [] \<Rightarrow> ([], []) | c # r \<Rightarrow> if c = 0x2D then ([c], r) else ([], cs)) = (sign, r0)"
    by (cases "(case cs of [] \<Rightarrow> ([]::jsstring, []) | c # r \<Rightarrow> if c = 0x2D then ([c], r) else ([], cs))") auto
  then have r0: "length r0 \<le> length cs"
    by (cases cs) (auto split: if_splits)
  from a sr obtain i r1 f r2 e where
    "lex_int r0 = Some (i, r1)" "lex_frac r1 = Some (f, r2)" "lex_exp r2 = Some (e, rest)"
    by (auto simp: lex_number_def split: option.splits)
  with int frac exp r0 show ?thesis
    by fastforce
qed

text \<open>
  The tokens of a text. White space separates tokens; a character that starts no token is
  an error.
\<close>

function lex :: "jsstring \<Rightarrow> token list option" where
  "lex [] = Some []"
| "lex (c # cs) =
     (if is_json_whitespace c then lex cs
      else
        (case punctuation c of
           Some t \<Rightarrow> map_option (Cons t) (lex cs)
         | None \<Rightarrow>
             if c = 0x22 then
               (case lex_string cs of
                  None \<Rightarrow> None
                | Some (s, rest) \<Rightarrow> map_option (Cons (TString s)) (lex rest))
             else if c = 0x2D \<or> is_digit c then
               (case lex_number (c # cs) of
                  None \<Rightarrow> None
                | Some (n, rest) \<Rightarrow> map_option (Cons (TNumber n)) (lex rest))
             else if take 4 (c # cs) = js ''true'' then
               map_option (Cons TTrue) (lex (drop 3 cs))
             else if take 5 (c # cs) = js ''false'' then
               map_option (Cons TFalse) (lex (drop 4 cs))
             else if take 4 (c # cs) = js ''null'' then
               map_option (Cons TNull) (lex (drop 3 cs))
             else None))"
  by pat_completeness auto
termination
  by (relation "measure length")
     (auto dest: lex_string_shorter lex_number_shorter)

subsection \<open>Values\<close>

text \<open>
  The parser reads the tokens from left to right with a stack of the arrays and objects
  that are still open. \<open>FArray vs\<close> is an open array with the elements \<open>vs\<close> read so far;
  \<open>FObject ms k\<close> is an open object with the members \<open>ms\<close> read so far, waiting for the
  value of the key \<open>k\<close>.
\<close>

datatype frame = FArray "json list" | FObject "(jsstring \<times> json) list" jsstring

datatype pstate =
    PValue "frame list"
  | PArrayStart "frame list"
  | PObjectStart "frame list"
  | PKey "(jsstring \<times> json) list" "frame list"
  | PColon "(jsstring \<times> json) list" jsstring "frame list"
  | PAfter json "frame list"

definition scalar :: "token \<Rightarrow> json option" where
  "scalar t =
     (case t of
        TTrue \<Rightarrow> Some (JBool True)
      | TFalse \<Rightarrow> Some (JBool False)
      | TNull \<Rightarrow> Some JNull
      | TNumber n \<Rightarrow> Some (JNumber n)
      | TString s \<Rightarrow> Some (JString s)
      | _ \<Rightarrow> None)"

text \<open>A value is expected, inside the frames \<open>st\<close>.\<close>

definition value_step :: "frame list \<Rightarrow> token \<Rightarrow> pstate option" where
  "value_step st t =
     (if t = TLBracket then Some (PArrayStart st)
      else if t = TLBrace then Some (PObjectStart st)
      else map_option (\<lambda>v. PAfter v st) (scalar t))"

text \<open>A value \<open>v\<close> is complete: a comma continues the innermost frame, a bracket closes it.\<close>

definition after_step :: "json \<Rightarrow> frame list \<Rightarrow> token \<Rightarrow> pstate option" where
  "after_step v st t =
     (case st of
        [] \<Rightarrow> None
      | FArray vs # st' \<Rightarrow>
          if t = TComma then Some (PValue (FArray (vs @ [v]) # st'))
          else if t = TRBracket then Some (PAfter (JArray (vs @ [v])) st')
          else None
      | FObject ms k # st' \<Rightarrow>
          if t = TComma then Some (PKey (ms @ [(k, v)]) st')
          else if t = TRBrace then Some (PAfter (JObject (ms @ [(k, v)])) st')
          else None)"

fun parse_step :: "pstate \<Rightarrow> token \<Rightarrow> pstate option" where
  "parse_step (PValue st) t = value_step st t"
| "parse_step (PArrayStart st) t =
     (if t = TRBracket then Some (PAfter (JArray []) st) else value_step (FArray [] # st) t)"
| "parse_step (PObjectStart st) t =
     (if t = TRBrace then Some (PAfter (JObject []) st)
      else (case t of TString k \<Rightarrow> Some (PColon [] k st) | _ \<Rightarrow> None))"
| "parse_step (PKey ms st) t = (case t of TString k \<Rightarrow> Some (PColon ms k st) | _ \<Rightarrow> None)"
| "parse_step (PColon ms k st) t =
     (if t = TColon then Some (PValue (FObject ms k # st)) else None)"
| "parse_step (PAfter v st) t = after_step v st t"

fun parse_tokens :: "pstate \<Rightarrow> token list \<Rightarrow> pstate option" where
  "parse_tokens p [] = Some p"
| "parse_tokens p (t # ts) =
     (case parse_step p t of None \<Rightarrow> None | Some p' \<Rightarrow> parse_tokens p' ts)"

text \<open>The text is one value, with nothing open and nothing after it.\<close>

definition JSON_parse :: "jsstring \<Rightarrow> js_error + json" where
  "JSON_parse text =
     (case lex text of
        None \<Rightarrow> Inl SyntaxError
      | Some ts \<Rightarrow>
          (case parse_tokens (PValue []) ts of
             Some (PAfter v []) \<Rightarrow> Inr v
           | _ \<Rightarrow> Inl SyntaxError))"

section \<open>\<open>decodeQRPayload\<close>\<close>

text \<open>
  The \<open>try\<close> block runs \<open>atob\<close> and then \<open>JSON.parse\<close>; the \<open>catch\<close> returns \<open>null\<close>
  for whatever either of them throws. The parsed value is returned as it is (the cast to
  \<open>QRPayload\<close> checks nothing), so the result is a JSON value, \<open>JNull\<close> being \<open>null\<close>.
\<close>

definition decodeQRPayload :: "jsstring \<Rightarrow> js_error + json" where
  "decodeQRPayload encoded =
     (case atob encoded of
        Inl err \<Rightarrow> Inr JNull
      | Inr decoded \<Rightarrow>
          (case JSON_parse decoded of
             Inl err \<Rightarrow> Inr JNull
           | Inr v \<Rightarrow> Inr v))"

text \<open>Reading a property of a parsed object: the last member of that name.\<close>

definition get_property :: "json \<Rightarrow> jsstring \<Rightarrow> json option" where
  "get_property v k = (case v of JObject ms \<Rightarrow> map_of (rev ms) k | _ \<Rightarrow> None)"


section \<open>\<open>isProductExpired\<close>\<close>

text \<open>
  \<open>new Date(expiryDate) < new Date()\<close> compares two time values. The clock and the
  \<open>Date\<close> constructor belong to the platform: \<open>now\<close> is the time value of
  \<open>new Date()\<close>, \<open>date_time s\<close> the one of \<open>new Date(s)\<close>, \<open>None\<close> being \<open>NaN\<close>
  (an invalid date), which is smaller than nothing.
\<close>

record clock =
  now :: int
  date_time :: "jsstring \<Rightarrow> int option"

definition isProductExpired :: "'a clock_scheme \<Rightarrow> jsstring \<Rightarrow> bool" where
  "isProductExpired env expiryDate =
     (case date_time env expiryDate of None \<Rightarrow> False | Some t \<Rightarrow> t < now env)"

section \<open>The scan page: \<open>verifyProduct\<close> and \<open>recordScan\<close>\<close>

text \<open>A row of the \<open>products\<close> table.\<close>

record product_row = product_fields +
  row_id :: jsstring
  qr_hash :: jsstring
  qr_image :: "jsstring option"
  product_image :: "jsstring option"

text \<open>The five fields that \<open>verifyProduct\<close> and the admin page hand to the hash.\<close>

definition hashed_fields :: "'a product_fields_scheme \<Rightarrow> product_fields" where
  "hashed_fields p =
     \<lparr>product_no = product_no p, product_name = product_name p, brand = brand p,
      manufacture_date = manufacture_date p, expiry_date = expiry_date p\<rparr>"

text \<open>The status shown by the page; \<open>null\<close> is \<open>None\<close>.\<close>

datatype VerificationStatus = Original | Fake | Expired | Unknown

text \<open>
  What the awaited query \<open>from('products').select('*').eq('product_no', n).single()\<close>
  gives: a response with its \<open>data\<close> and \<open>error\<close>, or a rejected promise.
\<close>

datatype query_error = NoRows | TransientFailure

datatype 'a query_result = Resolved "'a option" "query_error option" | Rejected

text \<open>The object inserted into \<open>scans\<close>, and what the awaited insert gives.\<close>

record scan_row =
  scan_product_no :: jsstring
  user_id :: "jsstring option"
  is_fake :: bool
  verification_result :: jsstring

datatype insert_result = Inserted | InsertError | InsertRejected

record toast =
  title :: string
  destructive :: bool

text \<open>The collaborators of the page: the signed-in user, the database and the clock.\<close>

record scan_env = clock +
  user :: "jsstring option"
  select_product :: "jsstring \<Rightarrow> product_row query_result"
  insert_scan :: "scan_row \<Rightarrow> insert_result"

text \<open>The state of the page, with the \<open>scans\<close> table and the console.\<close>

record scan_page =
  verificationStatus :: "VerificationStatus option"
  productDetails :: "product_row option"
  loading :: bool
  toasts :: "toast list"
  scans :: "scan_row list"
  console :: "string list"

definition recordScan :: "scan_env \<Rightarrow> scan_page \<Rightarrow> jsstring \<Rightarrow> bool \<Rightarrow> jsstring \<Rightarrow> scan_page" where
  "recordScan env st productNo isFake result =
     (case user env of
        None \<Rightarrow> st
      | Some uid \<Rightarrow>
          (let row = \<lparr>scan_product_no = productNo, user_id = Some uid, is_fake = isFake,
                       verification_result = result\<rparr>
           in case insert_scan env row of
                Inserted \<Rightarrow> st\<lparr>scans := scans st @ [row]\<rparr>
              | InsertError \<Rightarrow> st
              | InsertRejected \<Rightarrow> st\<lparr>console := console st @ [''Error recording scan:'']\<rparr>))"

definition show_toast :: "string \<Rightarrow> bool \<Rightarrow> scan_page \<Rightarrow> scan_page" where
  "show_toast t d st = st\<lparr>toasts := toasts st @ [\<lparr>title = t, destructive = d\<rparr>]\<rparr>"

text \<open>
  \<open>if (qrHash)\<close>: an absent argument and the empty string are both falsy; \<open>truthy\<close>
  gives the argument when the test succeeds.
\<close>

definition truthy :: "jsstring option \<Rightarrow> jsstring option" where
  "truthy qrHash = (case qrHash of None \<Rightarrow> None | Some h \<Rightarrow> if h = [] then None else Some h)"

definition verifyProduct :: "scan_env \<Rightarrow> scan_page \<Rightarrow> jsstring \<Rightarrow> jsstring option \<Rightarrow> scan_page" where
  "verifyProduct env st0 productNumber qrHash =
     (let st = st0\<lparr>loading := True, verificationStatus := None, productDetails := None\<rparr>
      in case select_product env productNumber of
           Rejected \<Rightarrow>
             (show_toast ''Verification Error'' True
                (st\<lparr>console := console st @ [''Verification error:'']\<rparr>))\<lparr>loading := False\<rparr>
         | Resolved data err \<Rightarrow>
             (case (data, err) of
                (Some product, None) \<Rightarrow>
                  (let st = st\<lparr>productDetails := Some product\<rparr>
                   in if isProductExpired env (expiry_date product) then
                        (show_toast ''Product Expired'' True
                           (recordScan env (st\<lparr>verificationStatus := Some Expired\<rparr>)
                              productNumber True (js ''Product expired'')))\<lparr>loading := False\<rparr>
                      else
                        (case truthy qrHash of
                           Some h \<Rightarrow>
                             (let isValid = verifyProductHash h (hashed_fields product)
                              in if isValid \<and> h = qr_hash product then
                                   (show_toast ''Product Verified!'' False
                                      (recordScan env (st\<lparr>verificationStatus := Some Original\<rparr>)
                                         productNumber False (js ''Hash verified - Original'')))
                                     \<lparr>loading := False\<rparr>
                                 else
                                   (show_toast ''Warning: Counterfeit Detected'' True
                                      (recordScan env (st\<lparr>verificationStatus := Some Fake\<rparr>)
                                         productNumber True (js ''Hash mismatch - Fake'')))
                                     \<lparr>loading := False\<rparr>)
                         | None \<Rightarrow>
                             (show_toast ''Product Found'' False
                                (recordScan env (st\<lparr>verificationStatus := Some Original\<rparr>)
                                   productNumber False
                                   (js ''Manual verification - Product exists'')))
                               \<lparr>loading := False\<rparr>))
              | _ \<Rightarrow>
                  (show_toast ''Product Not Found'' True
                     (recordScan env (st\<lparr>verificationStatus := Some Unknown\<rparr>)
                        productNumber True (js ''Product not found in database'')))
                    \<lparr>loading := False\<rparr>))"

section \<open>The admin page: \<open>handleSubmit\<close>\<close>

text \<open>
  The collaborators of the form: the signed-in user, the QR code renderer, and the
  database. \<open>db_accepts\<close> says whether the database carries out the statement (the row
  level policy, the constraints, the connection); \<open>pg_date s\<close> is the text a \<open>DATE\<close>
  column gives back for the input \<open>s\<close>; \<open>gen_random_uuid\<close> is the default of the
  \<open>id\<close> column.
\<close>

record admin_env =
  admin_user :: "jsstring option"
  toDataURL :: "jsstring \<Rightarrow> js_error + jsstring"
  db_accepts :: bool
  pg_date :: "jsstring \<Rightarrow> jsstring"
  gen_random_uuid :: jsstring

text \<open>The object given to \<open>update\<close> and \<open>insert\<close>; an absent \<open>product_image\<close> is \<open>None\<close>.\<close>

record updateData = product_fields +
  new_qr_hash :: jsstring
  new_qr_image :: jsstring
  new_product_image :: "jsstring option"

definition write_row :: "admin_env \<Rightarrow> updateData \<Rightarrow> product_row \<Rightarrow> product_row" where
  "write_row env u r =
     r\<lparr>product_no := product_no u, product_name := product_name u, brand := brand u,
       manufacture_date := pg_date env (manufacture_date u),
       expiry_date := pg_date env (expiry_date u),
       qr_hash := new_qr_hash u, qr_image := Some (new_qr_image u),
       product_image := (case new_product_image u of
                           None \<Rightarrow> product_image r | Some i \<Rightarrow> Some i)\<rparr>"

text \<open>\<open>from('products').update(u).eq('id', i)\<close> and \<open>from('products').insert(u)\<close>.\<close>

definition products_update :: "admin_env \<Rightarrow> updateData \<Rightarrow> jsstring \<Rightarrow> product_row list \<Rightarrow> product_row list" where
  "products_update env u i rows =
     (if db_accepts env then map (\<lambda>r. if row_id r = i then write_row env u r else r) rows
      else rows)"

definition products_insert :: "admin_env \<Rightarrow> updateData \<Rightarrow> product_row list \<Rightarrow> product_row list" where
  "products_insert env u rows =
     (if db_accepts env then
        rows @ [write_row env u
                  \<lparr>product_no = [], product_name = [], brand = [], manufacture_date = [],
                   expiry_date = [], row_id = gen_random_uuid env, qr_hash = [],
                   qr_image = None, product_image = None\<rparr>]
      else rows)"

text \<open>
  The first \<open>handleSubmit\<close> (without product images): the exception it throws, if any,
  and the table after it. An exception of \<open>encodeQRPayload\<close> or of \<open>QRCode.toDataURL\<close>
  leaves the function before the table is written.
\<close>

definition handleSubmit :: "admin_env \<Rightarrow> product_fields \<Rightarrow> product_row option \<Rightarrow> product_row list \<Rightarrow> js_error option \<times> product_row list" where
  "handleSubmit env formData editingProduct rows =
     (let hash = generateProductHash formData
      in case encodeQRPayload \<lparr>hash = hash, payload_product_no = product_no formData\<rparr> of
           Inl err \<Rightarrow> (Some err, rows)
         | Inr qrPayload \<Rightarrow>
             (case toDataURL env qrPayload of
                Inl err \<Rightarrow> (Some err, rows)
              | Inr qrImage \<Rightarrow>
                  (let u = product_fields.extend formData
                             \<lparr>new_qr_hash = hash, new_qr_image = qrImage,
                              new_product_image = None\<rparr>
                   in case editingProduct of
                        Some e \<Rightarrow> (None, products_update env u (row_id e) rows)
                      | None \<Rightarrow> (None, products_insert env u rows))))"

text \<open>
  The second \<open>handleSubmit\<close> (with product images). \<open>upload\<close> is what the image step
  leaves in \<open>productImageUrl\<close>; a failed upload returns before anything is written, and
  the \<open>catch\<close> turns an exception into a toast.
\<close>

datatype upload = NoImageSelected | Uploaded jsstring | UploadFailed

definition handleSubmit_image :: "admin_env \<Rightarrow> upload \<Rightarrow> product_fields \<Rightarrow> product_row option \<Rightarrow> product_row list \<Rightarrow> product_row list" where
  "handleSubmit_image env up formData editingProduct rows =
     (if up = UploadFailed then rows
      else
        (let productImageUrl =
               (case up of
                  Uploaded url \<Rightarrow> Some url
                | _ \<Rightarrow> (case editingProduct of
                          None \<Rightarrow> None
                        | Some e \<Rightarrow> (if product_image e = Some [] then None
                                      else product_image e)));
             hash = generateProductHash formData
         in case encodeQRPayload \<lparr>hash = hash, payload_product_no = product_no formData\<rparr> of
              Inl err \<Rightarrow> rows
            | Inr qrPayload \<Rightarrow>
                (case toDataURL env qrPayload of
                   Inl err \<Rightarrow> rows
                 | Inr qrImage \<Rightarrow>
                     (let u = product_fields.extend formData
                                \<lparr>new_qr_hash = hash, new_qr_image = qrImage,
                                 new_product_image = productImageUrl\<rparr>
                      in case editingProduct of
                           Some e \<Rightarrow> products_update env u (row_id e) rows
                         | None \<Rightarrow> products_insert env u rows))))"

text \<open>The invariant of a row: its stored hash is the hash of its stored fields.\<close>

definition fingerprint_ok :: "product_row \<Rightarrow> bool" where
  "fingerprint_ok r \<longleftrightarrow> qr_hash r = generateProductHash (hashed_fields r)"


section \<open>The reason recorded for a status\<close>

text \<open>
  The reason string that belongs to each outcome, as the specification lists the branches:
  it is what the recorded row is compared with.
\<close>

definition reason_of_branch :: "VerificationStatus option \<Rightarrow> jsstring option \<Rightarrow> jsstring" where
  "reason_of_branch status qrHash =
     (case status of
        None \<Rightarrow> []
      | Some Unknown \<Rightarrow> js ''Product not found in database''
      | Some Expired \<Rightarrow> js ''Product expired''
      | Some Fake \<Rightarrow> js ''Hash mismatch - Fake''
      | Some Original \<Rightarrow>
          (case truthy qrHash of
             Some h \<Rightarrow> js ''Hash verified - Original''
           | None \<Rightarrow> js ''Manual verification - Product exists''))"

section \<open>The scenarios of the specification\<close>

text \<open>
  Two registered products, \<open>P-100\<close> (expiring in 2030) and \<open>P-200\<close> (expired in 2020), a
  clock on 2026-01-01, a signed-in user and a database that stores every scan; the same
  with a failing product query, and with nobody signed in.
\<close>

definition p100 :: product_fields where
  "p100 = \<lparr>product_no = js ''P-100'', product_name = js ''Widget'', brand = js ''Acme'',
            manufacture_date = js ''2024-01-01'', expiry_date = js ''2030-01-01''\<rparr>"

definition p200 :: product_fields where
  "p200 = \<lparr>product_no = js ''P-200'', product_name = js ''Gadget'', brand = js ''Acme'',
            manufacture_date = js ''2019-01-01'', expiry_date = js ''2020-01-01''\<rparr>"


definition registered :: "product_fields \<Rightarrow> jsstring \<Rightarrow> product_row" where
  "registered p i =
     \<lparr>product_no = product_no p, product_name = product_name p, brand = brand p,
      manufacture_date = manufacture_date p, expiry_date = expiry_date p,
      row_id = i, qr_hash = generateProductHash p, qr_image = None, product_image = None\<rparr>"

definition scenario_env :: scan_env where
  "scenario_env =
     \<lparr>now = 1767225600000,
      date_time = (\<lambda>s. if s = js ''2030-01-01'' then Some 1893456000000
                        else if s = js ''2020-01-01'' then Some 1577836800000
                        else None),
      user = Some (js ''user-1''),
      select_product = (\<lambda>n. if n = js ''P-100'' then Resolved (Some (registered p100 (js ''1''))) None
                             else if n = js ''P-200'' then Resolved (Some (registered p200 (js ''2''))) None
                             else Resolved None (Some NoRows)),
      insert_scan = (\<lambda>r. Inserted)\<rparr>"

definition outage_env :: scan_env where
  "outage_env = scenario_env\<lparr>select_product := (\<lambda>n. Resolved None (Some TransientFailure))\<rparr>"

definition anonymous_env :: scan_env where
  "anonymous_env = scenario_env\<lparr>user := None\<rparr>"

text \<open>An admin page whose database accepts every write and stores the dates as given.\<close>

definition admin_scenario :: admin_env where
  "admin_scenario =
     \<lparr>admin_user = Some (js ''admin-1''),
      toDataURL = (\<lambda>s. Inr (js ''data:image/png;base64,'' @ s)),
      db_accepts = True,
      pg_date = (\<lambda>s. s),
      gen_random_uuid = js ''id-1''\<rparr>"

definition initial_page :: scan_page where
  "initial_page =
     \<lparr>verificationStatus = None, productDetails = None, loading = False, toasts = [],
      scans = [], console = []\<rparr>"

section \<open>Properties of the hash and of the payload encoding\<close>

lemma js_simps: "js [] = []" "js (c # cs) = of_nat (of_char c) # js cs"
  by (simp_all add: js_def)

lemma unat_js_unit: "unat (of_nat (of_char c) :: code_unit) = of_char c"
proof -
  have "(of_char c :: nat) < 65536"
    by (rule less_trans [OF nat_of_char_less_256]) simp
  then have "(of_char c :: nat) mod 65536 = of_char c"
    by (rule mod_less)
  then show ?thesis
    by (simp add: unat_of_nat)
qed

lemma js_eq_iff [simp]: "js a = js b \<longleftrightarrow> a = b"
proof
  assume "js a = js b"
  then have "map unat (js a) = map unat (js b)"
    by simp
  then have "map (of_char :: char \<Rightarrow> nat) a = map of_char b"
    by (simp add: js_def unat_js_unit comp_def)
  moreover have "inj (of_char :: char \<Rightarrow> nat)"
    by (rule inj_of_char)
  ultimately show "a = b"
    by (simp add: inj_map_eq_map)
qed simp

lemma js_Nil_iff [simp]: "js a = [] \<longleftrightarrow> a = []" "[] = js a \<longleftrightarrow> a = []"
  by (auto simp: js_def)

lemma length_js [simp]: "length (js a) = length a"
  by (simp add: js_def)

lemma js_append: "js (a @ b) = js a @ js b"
  by (simp add: js_def)

lemma length_word_bytes: "length (word_bytes w) = 4"
  by (simp add: word_bytes_def)

lemma length_sha256: "length (sha256 m) = 32"
  by (simp add: sha256_def Let_def length_word_bytes)

lemma length_hex_byte: "length (padStart 2 0x30 (toString16 b)) = 2"
  by (simp add: padStart_def toString16_def)

lemma length_concat_const:
  "(\<And>x. x \<in> set xs \<Longrightarrow> length (f x) = n) \<Longrightarrow> length (concat (map f xs)) = n * length xs"
  by (induction xs) simp_all

lemma length_generateProductHash: "length (generateProductHash p) = 64"
  by (simp add: generateProductHash_def Let_def length_concat_const [where n = 2]
      length_hex_byte length_sha256)


lemma hex_digit_lower: "d < 16 \<Longrightarrow> is_lower_hex (hex_digit d)"
proof -
  have "list_all (\<lambda>d. is_lower_hex (hex_digit d)) [0..<16]"
    by code_simp
  then show "d < 16 \<Longrightarrow> is_lower_hex (hex_digit d)"
    by (simp add: list_all_iff)
qed

lemma hex_byte_lower: "list_all is_lower_hex (padStart 2 0x30 (toString16 b))"
proof -
  have "unat b < 256"
    using unsigned_less [of b, where ?'a = nat] by simp
  then have "unat b div 16 < 16" "unat b mod 16 < 16"
    by simp_all
  moreover have "is_lower_hex 0x30"
    by (simp add: is_lower_hex_def)
  ultimately show ?thesis
    by (auto simp: padStart_def toString16_def hex_digit_lower)
qed

lemma generateProductHash_lower_hex: "list_all is_lower_hex (generateProductHash p)"
  by (simp add: generateProductHash_def Let_def list_all_iff)
     (metis hex_byte_lower list_all_iff)

lemma dataString_collision:
  "dataString \<lparr>product_no = js ''A|B'', product_name = js ''C'', brand = b,
               manufacture_date = m, expiry_date = e\<rparr>
   = dataString \<lparr>product_no = js ''A'', product_name = js ''B|C'', brand = b,
               manufacture_date = m, expiry_date = e\<rparr>"
  by (simp add: dataString_def js_simps)


lemma quote_units_keeps:
  "c \<in> set s \<Longrightarrow> 0xFF < c \<Longrightarrow> \<not> is_high_surrogate c \<Longrightarrow> \<not> is_low_surrogate c
    \<Longrightarrow> c \<in> set (quote_units s)"
proof (induction s rule: quote_units.induct)
  case 1
  then show ?case by simp
next
  case (2 x)
  then have "x = c" by simp
  moreover from 2 have "\<not> c < 0x20" "c \<noteq> 0x08" "c \<noteq> 0x09" "c \<noteq> 0x0A" "c \<noteq> 0x0C"
      "c \<noteq> 0x0D" "c \<noteq> 0x22" "c \<noteq> 0x5C"
    by (auto simp: word_less_nat_alt)
  ultimately show ?case
    using 2 by (simp add: quote_unit_def)
next
  case (3 x d ds)
  show ?case
  proof (cases "is_high_surrogate x \<and> is_low_surrogate d")
    case True
    with 3 show ?thesis by auto
  next
    case False
    show ?thesis
    proof (cases "c = x")
      case True
      with "3.prems" have "\<not> x < 0x20" "x \<noteq> 0x08" "x \<noteq> 0x09" "x \<noteq> 0x0A" "x \<noteq> 0x0C"
          "x \<noteq> 0x0D" "x \<noteq> 0x22" "x \<noteq> 0x5C"
        by (auto simp: word_less_nat_alt)
      with True "3.prems" have "quote_unit x = [x]"
        by (simp add: quote_unit_def)
      with True False show ?thesis by simp
    next
      case ne: False
      with "3.prems" have "c \<in> set (d # ds)" by simp
      with "3.IH"(2) [OF False] "3.prems" have "c \<in> set (quote_units (d # ds))"
        by blast
      moreover from False have "quote_units (x # d # ds) = quote_unit x @ quote_units (d # ds)"
        by auto
      ultimately show ?thesis
        by (simp del: quote_units.simps)
    qed
  qed
qed


subsection \<open>Known answers\<close>
















text \<open>
  C9. \<open>generateProductHash\<close> is not injective, whatever the digest: the product number
  \<open>A|B\<close> with the name \<open>C\<close> and the product number \<open>A\<close> with the name \<open>B|C\<close>, the other
  fields being equal, are different field tuples with the same joined string, and so the
  same hash.
\<close>

theorem generateProductHash_not_injective:
  "(let p = \<lparr>product_no = js ''A|B'', product_name = js ''C'', brand = b,
              manufacture_date = m, expiry_date = e\<rparr>;
        q = \<lparr>product_no = js ''A'', product_name = js ''B|C'', brand = b,
              manufacture_date = m, expiry_date = e\<rparr>
    in p \<noteq> q \<and> dataString p = dataString q
       \<and> generateProductHash p = generateProductHash q)"
  using dataString_collision [of b m e]
  by (simp add: Let_def generateProductHash_def)


lemma product_no_in_JSON_stringify:
  "set (quote_units (payload_product_no p)) \<subseteq> set (JSON_stringify p)"
  unfolding JSON_stringify_def QuoteJSONString_def set_append
  by blast

lemma encodeQRPayload_throws_iff:
  "(encodeQRPayload p = Inl InvalidCharacterError) = (\<exists>c \<in> set (JSON_stringify p). 0xFF < c)"
  by (simp add: encodeQRPayload_def btoa_def)

lemma JSON_stringify_example:
  "\<exists>c \<in> set (JSON_stringify \<lparr>hash = h, payload_product_no = [0x4E2D]\<rparr>). 0xFF < c"
proof -
  have "(0x4E2D :: code_unit) \<in> set (quote_units [0x4E2D])"
    by (rule quote_units_keeps) (simp_all add: is_high_surrogate_def is_low_surrogate_def)
  moreover have "set (quote_units [0x4E2D])
      \<subseteq> set (JSON_stringify \<lparr>hash = h, payload_product_no = [0x4E2D]\<rparr>)"
    using product_no_in_JSON_stringify [of "\<lparr>hash = h, payload_product_no = [0x4E2D]\<rparr>"]
    by (simp del: quote_units.simps)
  ultimately have "(0x4E2D :: code_unit)
      \<in> set (JSON_stringify \<lparr>hash = h, payload_product_no = [0x4E2D]\<rparr>)"
    by (rule subsetD [rotated])
  moreover have "(0xFF :: code_unit) < 0x4E2D"
    by simp
  ultimately show ?thesis
    by (rule bexI [rotated])
qed

text \<open>
  C10. \<open>encodeQRPayload\<close> throws exactly when the serialised payload has a code unit above
  U+00FF, and there are payloads for which it does (a product number with the character
  U+4E2D, for one): \<open>encodeQRPayload\<close> is not total.
\<close>

theorem encodeQRPayload_not_total:
  "(encodeQRPayload p = Inl InvalidCharacterError) = (\<exists>c \<in> set (JSON_stringify p). 0xFF < c)
   \<and> (\<exists>q. encodeQRPayload q = Inl InvalidCharacterError)"
  using encodeQRPayload_throws_iff JSON_stringify_example by blast

theorem encodeQRPayload_not_total_witness:
  "encodeQRPayload \<lparr>hash = js ''ab'', payload_product_no = [0x4E2D]\<rparr>
     = Inl InvalidCharacterError"
  using encodeQRPayload_not_total [of "\<lparr>hash = js ''ab'', payload_product_no = [0x4E2D]\<rparr>"]
    JSON_stringify_example [of "js ''ab''"]
  by blast


section \<open>Properties of \<open>verifyProduct\<close>\<close>

lemma recordScan_fields [simp]:
  "verificationStatus (recordScan env st n f r) = verificationStatus st"
  "productDetails (recordScan env st n f r) = productDetails st"
  "loading (recordScan env st n f r) = loading st"
  "toasts (recordScan env st n f r) = toasts st"
  by (simp_all add: recordScan_def Let_def split: option.splits insert_result.splits)

lemma show_toast_fields [simp]:
  "verificationStatus (show_toast t d st) = verificationStatus st"
  "productDetails (show_toast t d st) = productDetails st"
  "scans (show_toast t d st) = scans st"
  "toasts (show_toast t d st) = toasts st @ [\<lparr>title = t, destructive = d\<rparr>]"
  by (simp_all add: show_toast_def)

lemma recordScan_scans:
  "scans (recordScan env st n f r) =
     (case user env of
        None \<Rightarrow> scans st
      | Some uid \<Rightarrow>
          (let row = \<lparr>scan_product_no = n, user_id = Some uid, is_fake = f,
                       verification_result = r\<rparr>
           in if insert_scan env row = Inserted then scans st @ [row] else scans st))"
  by (simp add: recordScan_def Let_def split: option.splits insert_result.splits)

lemma verifyProduct_status:
  "verificationStatus (verifyProduct env st n qr) =
     (case select_product env n of
        Rejected \<Rightarrow> None
      | Resolved None err \<Rightarrow> Some Unknown
      | Resolved (Some p) (Some e) \<Rightarrow> Some Unknown
      | Resolved (Some p) None \<Rightarrow>
          if isProductExpired env (expiry_date p) then Some Expired
          else (case qr of
                  None \<Rightarrow> Some Original
                | Some h \<Rightarrow>
                    if h = [] then Some Original
                    else if h = generateProductHash (hashed_fields p) \<and> h = qr_hash p
                      then Some Original
                    else Some Fake))"
  by (auto simp: verifyProduct_def Let_def truthy_def verifyProductHash_def
      split: query_result.splits option.splits)

lemma verifyProduct_scans:
  "scans (verifyProduct env st n qr) =
     (case select_product env n of
        Rejected \<Rightarrow> scans st
      | Resolved d e \<Rightarrow>
          (case user env of
             None \<Rightarrow> scans st
           | Some uid \<Rightarrow>
               (let status = verificationStatus (verifyProduct env st n qr);
                    row = \<lparr>scan_product_no = n, user_id = Some uid,
                            is_fake = (status \<noteq> Some Original),
                            verification_result = reason_of_branch status qr\<rparr>
                in if insert_scan env row = Inserted then scans st @ [row] else scans st)))"
  by (auto simp: verifyProduct_def Let_def recordScan_scans reason_of_branch_def
      show_toast_def split: query_result.splits option.splits)

lemma verifyProduct_toasts:
  "(select_product env n = Resolved d (Some err) \<longrightarrow>
      verificationStatus (verifyProduct env st n qr) = Some Unknown
      \<and> toasts (verifyProduct env st n qr)
          = toasts st @ [\<lparr>title = ''Product Not Found'', destructive = True\<rparr>])
   \<and> (select_product env n = Rejected \<longrightarrow>
      verificationStatus (verifyProduct env st n qr) = None
      \<and> toasts (verifyProduct env st n qr)
          = toasts st @ [\<lparr>title = ''Verification Error'', destructive = True\<rparr>])"
  by (auto simp: verifyProduct_def Let_def show_toast_def recordScan_def
      split: query_result.splits option.splits insert_result.splits)

lemma verifyProduct_insert_irrelevant:
  "verificationStatus (verifyProduct (env\<lparr>insert_scan := f\<rparr>) st n qr)
     = verificationStatus (verifyProduct (env\<lparr>insert_scan := g\<rparr>) st n qr)
   \<and> productDetails (verifyProduct (env\<lparr>insert_scan := f\<rparr>) st n qr)
     = productDetails (verifyProduct (env\<lparr>insert_scan := g\<rparr>) st n qr)
   \<and> toasts (verifyProduct (env\<lparr>insert_scan := f\<rparr>) st n qr)
     = toasts (verifyProduct (env\<lparr>insert_scan := g\<rparr>) st n qr)
   \<and> loading (verifyProduct (env\<lparr>insert_scan := f\<rparr>) st n qr)
     = loading (verifyProduct (env\<lparr>insert_scan := g\<rparr>) st n qr)"
  by (auto simp: verifyProduct_def Let_def isProductExpired_def
      split: query_result.splits option.splits)


lemma generateProductHash_nonempty [simp]:
  "generateProductHash p \<noteq> []" "[] \<noteq> generateProductHash p"
  using length_generateProductHash [of p] by auto

lemma hashed_fields_registered [simp]: "hashed_fields (registered p i) = p"
  by (simp add: hashed_fields_def registered_def)

lemma registered_fields [simp]:
  "qr_hash (registered p i) = generateProductHash p"
  "expiry_date (registered p i) = expiry_date p"
  by (simp_all add: registered_def)

lemma scenario_lookup [simp]:
  "select_product scenario_env (js ''P-100'') = Resolved (Some (registered p100 (js ''1''))) None"
  "select_product scenario_env (js ''P-200'') = Resolved (Some (registered p200 (js ''2''))) None"
  "select_product scenario_env (js ''NO-SUCH-ID'') = Resolved None (Some NoRows)"
  "user scenario_env = Some (js ''user-1'')"
  "insert_scan scenario_env r = Inserted"
  by (simp_all add: scenario_env_def)

lemma isProductExpired_update [simp]:
  "isProductExpired (env\<lparr>insert_scan := f\<rparr>) d = isProductExpired env d"
  "isProductExpired (env\<lparr>select_product := q\<rparr>) d = isProductExpired env d"
  "isProductExpired (env\<lparr>user := u\<rparr>) d = isProductExpired env d"
  by (simp_all add: isProductExpired_def split: option.splits)

lemma scenario_expiry [simp]:
  "\<not> isProductExpired scenario_env (expiry_date p100)"
  "isProductExpired scenario_env (expiry_date p200)"
  by (simp_all add: isProductExpired_def scenario_env_def p100_def p200_def)

text \<open>
  C1, as amended. When the query answers: an error or no row gives \<open>unknown\<close>; a row whose
  expiry date is before the current time gives \<open>expired\<close>, whatever \<open>qrHash\<close> is;
  otherwise a non-empty \<open>qrHash\<close> gives \<open>original\<close> exactly when it equals both the hash
  recomputed from the row's fields and the row's stored \<open>qr_hash\<close>, and \<open>fake\<close> if not;
  otherwise (no \<open>qrHash\<close>, or the empty string) the status is \<open>original\<close>. When the query
  throws, no status is set.
\<close>

theorem verifyProduct_decision_table:
  "verificationStatus (verifyProduct env st n qr) =
     (case select_product env n of
        Rejected \<Rightarrow> None
      | Resolved None err \<Rightarrow> Some Unknown
      | Resolved (Some p) (Some e) \<Rightarrow> Some Unknown
      | Resolved (Some p) None \<Rightarrow>
          if isProductExpired env (expiry_date p) then Some Expired
          else (case qr of
                  None \<Rightarrow> Some Original
                | Some h \<Rightarrow>
                    if h = [] then Some Original
                    else if h = generateProductHash (hashed_fields p) \<and> h = qr_hash p
                      then Some Original
                    else Some Fake))"
  by (rule verifyProduct_status)

text \<open>
  The scenarios of the specification: the registered hash of \<open>P-100\<close> is original, another
  hash is fake, the expired \<open>P-200\<close> is expired with its own hash and with another one, an
  unregistered number is unknown, and \<open>P-100\<close> without a hash is original.
\<close>

theorem verifyProduct_decision_table_witness:
  "verificationStatus (verifyProduct scenario_env initial_page (js ''P-100'')
      (Some (generateProductHash p100))) = Some Original
   \<and> verificationStatus (verifyProduct scenario_env initial_page (js ''P-100'')
      (Some (js ''0000''))) = Some Fake
   \<and> verificationStatus (verifyProduct scenario_env initial_page (js ''P-200'')
      (Some (generateProductHash p200))) = Some Expired
   \<and> verificationStatus (verifyProduct scenario_env initial_page (js ''P-200'')
      (Some (js ''0000''))) = Some Expired
   \<and> verificationStatus (verifyProduct scenario_env initial_page (js ''NO-SUCH-ID'') None)
      = Some Unknown
   \<and> verificationStatus (verifyProduct scenario_env initial_page (js ''P-100'') None)
      = Some Original"
proof -
  have "js ''0000'' \<noteq> generateProductHash p100"
  proof
    assume "js ''0000'' = generateProductHash p100"
    then have "length (js ''0000'') = length (generateProductHash p100)"
      by simp
    then show False
      by (simp add: length_generateProductHash)
  qed
  then show ?thesis
    by (simp add: verifyProduct_decision_table)
qed

text \<open>
  C1, as stated, fails for the empty string: \<open>P-100\<close> is found and not expired, the supplied
  \<open>qrHash\<close> is neither the recomputed nor the stored hash, and the status is \<open>original\<close>.
\<close>

theorem verifyProduct_empty_hash_counterexample:
  "select_product scenario_env (js ''P-100'') = Resolved (Some (registered p100 (js ''1''))) None
   \<and> \<not> isProductExpired scenario_env (expiry_date (registered p100 (js ''1'')))
   \<and> [] \<noteq> generateProductHash (hashed_fields (registered p100 (js ''1'')))
   \<and> [] \<noteq> qr_hash (registered p100 (js ''1''))
   \<and> verificationStatus (verifyProduct scenario_env initial_page (js ''P-100'') (Some []))
      = Some Original"
  by (simp add: verifyProduct_status)

text \<open>
  C2, as amended. A call whose query answers inserts one row into \<open>scans\<close> when a user is
  signed in, and the table has that row appended when the insert succeeds: the product
  number, the user's id, \<open>is_fake\<close> true for unknown, expired and fake and false for
  original, and the reason of the branch taken. With no user signed in nothing is
  inserted, and nothing is when the query throws.
\<close>

theorem verifyProduct_scan_record:
  "scans (verifyProduct env st n qr) =
     (case select_product env n of
        Rejected \<Rightarrow> scans st
      | Resolved d e \<Rightarrow>
          (case user env of
             None \<Rightarrow> scans st
           | Some uid \<Rightarrow>
               (let status = verificationStatus (verifyProduct env st n qr);
                    row = \<lparr>scan_product_no = n, user_id = Some uid,
                            is_fake = (status \<noteq> Some Original),
                            verification_result = reason_of_branch status qr\<rparr>
                in if insert_scan env row = Inserted then scans st @ [row] else scans st)))"
  by (rule verifyProduct_scans)

theorem verifyProduct_scan_record_witness:
  "scans (verifyProduct scenario_env initial_page (js ''NO-SUCH-ID'') None)
     = [\<lparr>scan_product_no = js ''NO-SUCH-ID'', user_id = Some (js ''user-1''), is_fake = True,
         verification_result = js ''Product not found in database''\<rparr>]
   \<and> scans (verifyProduct scenario_env initial_page (js ''P-100'')
        (Some (generateProductHash p100)))
     = [\<lparr>scan_product_no = js ''P-100'', user_id = Some (js ''user-1''), is_fake = False,
         verification_result = js ''Hash verified - Original''\<rparr>]"
  by (simp add: verifyProduct_scan_record verifyProduct_status reason_of_branch_def
      truthy_def initial_page_def)

text \<open>
  C2, as stated, fails when no user is signed in: the call ends with the status \<open>unknown\<close>
  and the \<open>scans\<close> table as it was.
\<close>

theorem verifyProduct_anonymous_counterexample:
  "user anonymous_env = None
   \<and> verificationStatus (verifyProduct anonymous_env initial_page (js ''NO-SUCH-ID'') None)
      = Some Unknown
   \<and> scans (verifyProduct anonymous_env initial_page (js ''NO-SUCH-ID'') None) = []"
  by (simp add: verifyProduct_status verifyProduct_scans anonymous_env_def initial_page_def
      scenario_env_def)

text \<open>
  C5, as amended. An error in the answer of the query, of whatever kind, is handled as
  "not found": the status is \<open>unknown\<close>, the toast is "Product Not Found", and the page
  ends as it does when the query reports that there is no such row. A query that throws
  leaves the status unset and shows "Verification Error". Nothing is passed on to the
  caller in either case.
\<close>

theorem verifyProduct_lookup_failure:
  "(select_product env n = Resolved d (Some err) \<longrightarrow>
      verificationStatus (verifyProduct env st n qr) = Some Unknown
      \<and> toasts (verifyProduct env st n qr)
          = toasts st @ [\<lparr>title = ''Product Not Found'', destructive = True\<rparr>]
      \<and> verifyProduct env st n qr
          = verifyProduct (env\<lparr>select_product := (\<lambda>n. Resolved None (Some NoRows))\<rparr>) st n qr)
   \<and> (select_product env n = Rejected \<longrightarrow>
      verificationStatus (verifyProduct env st n qr) = None
      \<and> toasts (verifyProduct env st n qr)
          = toasts st @ [\<lparr>title = ''Verification Error'', destructive = True\<rparr>])"
proof -
  have "verifyProduct env st n qr
      = verifyProduct (env\<lparr>select_product := (\<lambda>n. Resolved None (Some NoRows))\<rparr>) st n qr"
    if "select_product env n = Resolved d (Some err)"
    using that
    by (auto simp: verifyProduct_def Let_def recordScan_def show_toast_def
        split: option.splits insert_result.splits)
  with verifyProduct_toasts [of env n d err st qr] show ?thesis
    by blast
qed

theorem verifyProduct_lookup_failure_witness:
  "verificationStatus (verifyProduct outage_env initial_page (js ''P-100'') None) = Some Unknown
   \<and> toasts (verifyProduct outage_env initial_page (js ''P-100'') None)
      = toasts initial_page @ [\<lparr>title = ''Product Not Found'', destructive = True\<rparr>]
   \<and> verificationStatus
        (verifyProduct (scenario_env\<lparr>select_product := (\<lambda>n. Rejected)\<rparr>) initial_page
           (js ''P-100'') None) = None"
proof -
  have "select_product outage_env (js ''P-100'') = Resolved None (Some TransientFailure)"
    by (simp add: outage_env_def)
  moreover have "select_product (scenario_env\<lparr>select_product := (\<lambda>n. Rejected)\<rparr>)
      (js ''P-100'') = Rejected"
    by simp
  ultimately show ?thesis
    using verifyProduct_lookup_failure
        [of outage_env "js ''P-100''" None TransientFailure initial_page None]
      verifyProduct_lookup_failure
        [of "scenario_env\<lparr>select_product := (\<lambda>n. Rejected)\<rparr>" "js ''P-100''" None
            TransientFailure initial_page None]
    by blast
qed

text \<open>
  C5, as stated, fails: a transient failure of the query gives the terminal status
  \<open>unknown\<close>.
\<close>

theorem verifyProduct_transient_counterexample:
  "select_product outage_env (js ''P-100'') = Resolved None (Some TransientFailure)
   \<and> verificationStatus (verifyProduct outage_env initial_page (js ''P-100'') None)
      = Some Unknown"
  by (simp add: verifyProduct_status outage_env_def)

text \<open>
  C8. What the insert into \<open>scans\<close> does (succeed, answer with an error, throw) changes
  neither the status nor anything else the page shows: status, product details, toasts
  and the loading flag are the same for any two behaviours of the insert.
\<close>

theorem verifyProduct_insert_failure:
  "verificationStatus (verifyProduct (env\<lparr>insert_scan := f\<rparr>) st n qr)
     = verificationStatus (verifyProduct (env\<lparr>insert_scan := g\<rparr>) st n qr)
   \<and> productDetails (verifyProduct (env\<lparr>insert_scan := f\<rparr>) st n qr)
     = productDetails (verifyProduct (env\<lparr>insert_scan := g\<rparr>) st n qr)
   \<and> toasts (verifyProduct (env\<lparr>insert_scan := f\<rparr>) st n qr)
     = toasts (verifyProduct (env\<lparr>insert_scan := g\<rparr>) st n qr)
   \<and> loading (verifyProduct (env\<lparr>insert_scan := f\<rparr>) st n qr)
     = loading (verifyProduct (env\<lparr>insert_scan := g\<rparr>) st n qr)"
  by (rule verifyProduct_insert_irrelevant)

theorem verifyProduct_insert_failure_witness:
  "verificationStatus
     (verifyProduct (scenario_env\<lparr>insert_scan := (\<lambda>r. InsertRejected)\<rparr>) initial_page
        (js ''P-100'') (Some (generateProductHash p100))) = Some Original
   \<and> verificationStatus
     (verifyProduct (scenario_env\<lparr>insert_scan := (\<lambda>r. InsertError)\<rparr>) initial_page
        (js ''P-200'') None) = Some Expired"
  using verifyProduct_insert_failure
      [where env = scenario_env and f = "\<lambda>r. InsertRejected" and g = "\<lambda>r. Inserted"
         and st = initial_page and n = "js ''P-100''"
         and qr = "Some (generateProductHash p100)"]
    verifyProduct_insert_failure
      [where env = scenario_env and f = "\<lambda>r. InsertError" and g = "\<lambda>r. Inserted"
         and st = initial_page and n = "js ''P-200''" and qr = None]
  by (simp add: verifyProduct_status)


section \<open>\<open>atob\<close> inverts \<open>btoa\<close>\<close>













lemma of_nat_unat_units: "map of_nat (map unat s) = (s :: jsstring)"
  by (induction s) simp_all



section \<open>\<open>decodeQRPayload\<close> inverts \<open>encodeQRPayload\<close>\<close>

lemma hex_digit_table:
  "list_all (\<lambda>d. hex_value (hex_digit d) = Some d \<and> hex_digit d \<le> 0xFF) [0..<16]"
  by code_simp


lemma hex_digit_latin1: "d < 16 \<Longrightarrow> hex_digit d \<le> 0xFF"
  using hex_digit_table by (simp add: list_all_iff)



lemma unat_div_4096: "unat (c :: code_unit) div 4096 < 16"
proof -
  have "unat c < 65536"
    using unsigned_less [of c, where ?'a = nat] by simp
  then show ?thesis by simp
qed















lemma latin1_simps [simp]:
  "latin1 []" "latin1 (c # s) \<longleftrightarrow> c \<le> 0xFF \<and> latin1 s"
  "latin1 (s @ t) \<longleftrightarrow> latin1 s \<and> latin1 t"
  by (simp_all add: latin1_def)

lemma latin1_js [simp]: "latin1 (js s)"
proof (induction s)
  case Nil
  show ?case by (simp add: js_simps)
next
  case (Cons c s)
  have "unat (of_nat (of_char c) :: code_unit) \<le> 255"
    using nat_of_char_less_256 [of c] by (simp only: unat_js_unit)
  then have "(of_nat (of_char c) :: code_unit) \<le> 0xFF"
    by (simp add: word_le_nat_alt)
  with Cons show ?case by (simp add: js_simps)
qed

lemma latin1_unicode_escape: "latin1 (unicode_escape c)"
proof -
  have "unat c div 4096 < 16"
    by (rule unat_div_4096)
  then show ?thesis
    by (simp add: unicode_escape_def hex_digit_latin1)
qed

lemma latin1_quote_unit: "c \<le> 0xFF \<Longrightarrow> latin1 (quote_unit c)"
  by (simp add: quote_unit_def latin1_unicode_escape)

lemma latin1_quote_units: "latin1 s \<Longrightarrow> latin1 (quote_units s)"
  by (induction s rule: quote_units.induct) (simp_all add: latin1_quote_unit)

lemma latin1_JSON_stringify:
  "latin1 (hash p) \<Longrightarrow> latin1 (payload_product_no p) \<Longrightarrow> latin1 (JSON_stringify p)"
  by (simp add: JSON_stringify_def QuoteJSONString_def latin1_quote_units)

lemma btoa_latin1: "latin1 s \<Longrightarrow> \<exists>t. btoa s = Inr t"
  by (auto simp: btoa_def latin1_def list_all_iff not_less [symmetric])

lemma encode_latin1:
  "latin1 (hash p) \<Longrightarrow> latin1 (payload_product_no p) \<Longrightarrow> \<exists>t. encodeQRPayload p = Inr t"
  unfolding encodeQRPayload_def by (intro btoa_latin1 latin1_JSON_stringify)

lemma lower_hex_latin1: "list_all is_lower_hex s \<Longrightarrow> latin1 s"
proof -
  have "is_lower_hex c \<Longrightarrow> c \<le> 0xFF" for c
    by (auto simp: is_lower_hex_def word_le_nat_alt)
  then show "list_all is_lower_hex s \<Longrightarrow> latin1 s"
    by (auto simp: latin1_def list_all_iff)
qed





lemma those_None: "x \<in> set xs \<Longrightarrow> f x = None \<Longrightarrow> those (map f xs) = None"
  by (induction xs) (auto split: option.splits)

lemma strip_padding_keeps: "c \<in> set d \<Longrightarrow> c \<noteq> 0x3D \<Longrightarrow> c \<in> set (strip_padding d)"
proof -
  assume c: "c \<in> set d" "c \<noteq> 0x3D"
  then have "c \<in> set (rev d)" by simp
  with c show ?thesis
    by (cases "rev d" rule: list.exhaust [case_names Nil Cons])
       (auto simp: strip_padding_def split: list.splits)
qed

lemma atob_invalid_character:
  assumes "c \<in> set e" "b64_value c = None" "\<not> is_ascii_whitespace c" "c \<noteq> 0x3D"
  shows "atob e = Inl InvalidCharacterError"
proof -
  from assms have "c \<in> set (filter (\<lambda>c. \<not> is_ascii_whitespace c) e)"
    by simp
  then have "c \<in> set (strip_padding (filter (\<lambda>c. \<not> is_ascii_whitespace c) e))"
    using assms(4) by (rule strip_padding_keeps)
  then have "those (map b64_value (strip_padding (filter (\<lambda>c. \<not> is_ascii_whitespace c) e)))
      = None"
    using assms(2) by (rule those_None)
  then show ?thesis
    by (simp add: atob_def Let_def)
qed


text \<open>
  C3, as amended. \<open>decodeQRPayload\<close> never throws. It returns \<open>null\<close> when \<open>atob\<close>
  throws, which it does on every input with a character outside the base64 alphabet other
  than \<open>=\<close> and ASCII white space, and when \<open>JSON.parse\<close> throws. When the decoded text
  is JSON, of whatever shape, it returns the parsed value as it is.
\<close>

theorem decodeQRPayload_total:
  "(\<exists>v. decodeQRPayload e = Inr v)
   \<and> (\<forall>err. atob e = Inl err \<longrightarrow> decodeQRPayload e = Inr JNull)
   \<and> (\<forall>d err. atob e = Inr d \<and> JSON_parse d = Inl err \<longrightarrow> decodeQRPayload e = Inr JNull)
   \<and> (\<forall>d v. atob e = Inr d \<and> JSON_parse d = Inr v \<longrightarrow> decodeQRPayload e = Inr v)
   \<and> ((\<exists>c \<in> set e. b64_value c = None \<and> \<not> is_ascii_whitespace c \<and> c \<noteq> 0x3D)
        \<longrightarrow> decodeQRPayload e = Inr JNull)"
proof (intro conjI allI impI)
  show "\<exists>v. decodeQRPayload e = Inr v"
    by (simp add: decodeQRPayload_def split: sum.splits)
next
  assume "\<exists>c \<in> set e. b64_value c = None \<and> \<not> is_ascii_whitespace c \<and> c \<noteq> 0x3D"
  then have "atob e = Inl InvalidCharacterError"
    using atob_invalid_character by blast
  then show "decodeQRPayload e = Inr JNull"
    by (simp add: decodeQRPayload_def)
qed (auto simp: decodeQRPayload_def)

lemma decodeQRPayload_not_json: "decodeQRPayload (js ''1234'') = Inr JNull"
  by code_simp

theorem decodeQRPayload_total_witness:
  "decodeQRPayload (js ''P-100'') = Inr JNull
   \<and> decodeQRPayload (js ''not a token!'') = Inr JNull
   \<and> decodeQRPayload (js ''1234'') = Inr JNull"
proof -
  have "\<exists>c \<in> set (js ''P-100''). b64_value c = None \<and> \<not> is_ascii_whitespace c \<and> c \<noteq> 0x3D"
    by (simp add: js_simps b64_value_def is_ascii_whitespace_def)
  moreover have "\<exists>c \<in> set (js ''not a token!'').
      b64_value c = None \<and> \<not> is_ascii_whitespace c \<and> c \<noteq> 0x3D"
    by (simp add: js_simps b64_value_def is_ascii_whitespace_def)
  ultimately show ?thesis
    using decodeQRPayload_total [of "js ''P-100''"] decodeQRPayload_total [of "js ''not a token!''"]
      decodeQRPayload_not_json
    by blast
qed

text \<open>
  C3, as stated, fails: the token below is the base64 of the JSON text
  \<open>{"product_no":"P-100"}\<close>, which has no \<open>hash\<close>, and \<open>decodeQRPayload\<close> returns the
  parsed object, not \<open>null\<close>.
\<close>

theorem decodeQRPayload_missing_hash_counterexample:
  "decodeQRPayload (js ''eyJwcm9kdWN0X25vIjoiUC0xMDAifQ=='')
     = Inr (JObject [(js ''product_no'', JString (js ''P-100''))])
   \<and> get_property (JObject [(js ''product_no'', JString (js ''P-100''))]) (js ''hash'') = None
   \<and> JObject [(js ''product_no'', JString (js ''P-100''))] \<noteq> JNull"
  by code_simp


section \<open>The hash stored by \<open>handleSubmit\<close>\<close>

lemma hashed_fields_extend [simp]:
  "hashed_fields (product_fields.extend (p :: product_fields) m) = p"
  by (simp add: hashed_fields_def product_fields.defs)

lemma write_row_fingerprint:
  assumes "pg_date env (manufacture_date u) = manufacture_date u"
    and "pg_date env (expiry_date u) = expiry_date u"
    and "new_qr_hash u = generateProductHash (hashed_fields u)"
  shows "fingerprint_ok (write_row env u r)"
  using assms by (simp add: fingerprint_ok_def write_row_def hashed_fields_def)

lemma products_update_fingerprint:
  assumes "pg_date env (manufacture_date u) = manufacture_date u"
    and "pg_date env (expiry_date u) = expiry_date u"
    and "new_qr_hash u = generateProductHash (hashed_fields u)"
  shows "list_all (\<lambda>r. r \<in> set rows \<or> fingerprint_ok r) (products_update env u i rows)"
  using write_row_fingerprint [OF assms]
  by (auto simp: products_update_def list_all_iff)

lemma products_insert_fingerprint:
  assumes "pg_date env (manufacture_date u) = manufacture_date u"
    and "pg_date env (expiry_date u) = expiry_date u"
    and "new_qr_hash u = generateProductHash (hashed_fields u)"
  shows "list_all (\<lambda>r. r \<in> set rows \<or> fingerprint_ok r) (products_insert env u rows)"
  using write_row_fingerprint [OF assms]
  by (auto simp: products_insert_def list_all_iff)

lemma unchanged_fingerprint: "list_all (\<lambda>r. r \<in> set rows \<or> fingerprint_ok r) rows"
  by (simp add: list_all_iff)

lemma extend_fields [simp]:
  "manufacture_date (product_fields.extend (p :: product_fields) m) = manufacture_date p"
  "expiry_date (product_fields.extend (p :: product_fields) m) = expiry_date p"
  "product_no (product_fields.extend (p :: product_fields) m) = product_no p"
  "product_name (product_fields.extend (p :: product_fields) m) = product_name p"
  "brand (product_fields.extend (p :: product_fields) m) = brand p"
  by (simp_all add: product_fields.defs)

lemma extend_more [simp]:
  "new_qr_hash (product_fields.extend (p :: product_fields)
     \<lparr>new_qr_hash = h, new_qr_image = q, new_product_image = i\<rparr>) = h"
  by (simp add: product_fields.defs)

lemma handleSubmit_rows:
  assumes "pg_date env (manufacture_date formData) = manufacture_date formData"
    and "pg_date env (expiry_date formData) = expiry_date formData"
  shows "list_all (\<lambda>r. r \<in> set rows \<or> fingerprint_ok r)
           (snd (handleSubmit env formData editingProduct rows))"
  using assms
  by (auto simp: handleSubmit_def Let_def unchanged_fingerprint
      intro!: products_update_fingerprint products_insert_fingerprint
      split: sum.splits option.splits)

lemma handleSubmit_image_rows:
  assumes "pg_date env (manufacture_date formData) = manufacture_date formData"
    and "pg_date env (expiry_date formData) = expiry_date formData"
  shows "list_all (\<lambda>r. r \<in> set rows \<or> fingerprint_ok r)
           (handleSubmit_image env up formData editingProduct rows)"
  using assms
  by (auto simp: handleSubmit_image_def Let_def unchanged_fingerprint
      intro!: products_update_fingerprint products_insert_fingerprint
      split: sum.splits option.splits)


lemma fingerprint_kept:
  "list_all (\<lambda>r. r \<in> set rows \<or> fingerprint_ok r) rows' \<Longrightarrow> list_all fingerprint_ok rows
    \<Longrightarrow> list_all fingerprint_ok rows'"
  by (auto simp: list_all_iff)

text \<open>
  C7. When the two dates of the form are in the form the \<open>DATE\<close> columns give back (as
  the values of the date inputs are), every row of the \<open>products\<close> table after
  \<open>handleSubmit\<close>, in either version of the page, is a row that was there before or a
  row whose stored \<open>qr_hash\<close> is the hash of its stored five fields. So an insert or an
  update never leaves a row with a stale hash, and a table of rows with the right hash
  stays one.
\<close>

theorem handleSubmit_fingerprint:
  assumes "pg_date env (manufacture_date formData) = manufacture_date formData"
    and "pg_date env (expiry_date formData) = expiry_date formData"
  shows "list_all (\<lambda>r. r \<in> set rows \<or> fingerprint_ok r)
           (snd (handleSubmit env formData editingProduct rows))
       \<and> list_all (\<lambda>r. r \<in> set rows \<or> fingerprint_ok r)
           (handleSubmit_image env up formData editingProduct rows)
       \<and> (list_all fingerprint_ok rows \<longrightarrow>
            list_all fingerprint_ok (snd (handleSubmit env formData editingProduct rows))
            \<and> list_all fingerprint_ok (handleSubmit_image env up formData editingProduct rows))"
  using handleSubmit_rows [OF assms] handleSubmit_image_rows [OF assms] fingerprint_kept
  by blast

lemma admin_scenario_simps [simp]:
  "pg_date admin_scenario s = s" "db_accepts admin_scenario"
  "toDataURL admin_scenario t = Inr (js ''data:image/png;base64,'' @ t)"
  "gen_random_uuid admin_scenario = js ''id-1''"
  by (simp_all add: admin_scenario_def)

lemma encode_generated:
  "latin1 (product_no p)
    \<Longrightarrow> \<exists>t. encodeQRPayload \<lparr>hash = generateProductHash p, payload_product_no = product_no p\<rparr>
          = Inr t"
  by (rule encode_latin1) (simp_all add: lower_hex_latin1 generateProductHash_lower_hex)

text \<open>
  Registering \<open>P-100\<close> in an empty table stores one row, with the fields of the form and
  their hash; renaming it afterwards stores the new name with the hash of the new fields,
  and leaves the other row alone.
\<close>

theorem handleSubmit_fingerprint_witness:
  "(\<exists>r. snd (handleSubmit admin_scenario p100 None []) = [r]
        \<and> hashed_fields r = p100 \<and> qr_hash r = generateProductHash p100 \<and> fingerprint_ok r)
   \<and> (\<exists>r. handleSubmit_image admin_scenario NoImageSelected
            (p100\<lparr>product_name := js ''Widget 2''\<rparr>) (Some (registered p100 (js ''1'')))
            [registered p100 (js ''1''), registered p200 (js ''2'')]
          = [r, registered p200 (js ''2'')]
        \<and> hashed_fields r = p100\<lparr>product_name := js ''Widget 2''\<rparr>
        \<and> qr_hash r = generateProductHash (p100\<lparr>product_name := js ''Widget 2''\<rparr>)
        \<and> fingerprint_ok r)"
proof -
  define p where "p = p100\<lparr>product_name := js ''Widget 2''\<rparr>"
  have no: "product_no p100 = js ''P-100''" "product_no p = js ''P-100''"
    by (simp_all add: p_def p100_def)
  obtain t where t: "encodeQRPayload
      \<lparr>hash = generateProductHash p100, payload_product_no = product_no p100\<rparr> = Inr t"
    using encode_generated [of p100] no by auto
  obtain t' where t': "encodeQRPayload
      \<lparr>hash = generateProductHash p, payload_product_no = product_no p\<rparr> = Inr t'"
    using encode_generated [of p] no by auto
  have ok: "list_all (\<lambda>r. r \<in> set [] \<or> fingerprint_ok r)
      (snd (handleSubmit admin_scenario p100 None []))"
    using handleSubmit_fingerprint [of admin_scenario p100 "[]" None] by simp
  have ok': "list_all
      (\<lambda>r. r \<in> set [registered p100 (js ''1''), registered p200 (js ''2'')] \<or> fingerprint_ok r)
      (handleSubmit_image admin_scenario NoImageSelected p (Some (registered p100 (js ''1'')))
         [registered p100 (js ''1''), registered p200 (js ''2'')])"
    using handleSubmit_fingerprint
        [of admin_scenario p "[registered p100 (js ''1''), registered p200 (js ''2'')]"
            "Some (registered p100 (js ''1''))" NoImageSelected]
    by simp
  have ins: "\<exists>r. snd (handleSubmit admin_scenario p100 None []) = [r]
        \<and> hashed_fields r = p100 \<and> qr_hash r = generateProductHash p100"
    using t by (simp add: handleSubmit_def Let_def products_insert_def write_row_def
        hashed_fields_def)
  have upd: "\<exists>r. handleSubmit_image admin_scenario NoImageSelected p
            (Some (registered p100 (js ''1'')))
            [registered p100 (js ''1''), registered p200 (js ''2'')]
          = [r, registered p200 (js ''2'')]
        \<and> hashed_fields r = p \<and> qr_hash r = generateProductHash p"
    using t' by (simp add: handleSubmit_image_def Let_def products_update_def write_row_def
        hashed_fields_def registered_def)
  have fresh: "hashed_fields r = p \<Longrightarrow> r \<noteq> registered p100 (js ''1'')
      \<and> r \<noteq> registered p200 (js ''2'')" for r
    by (auto simp: p_def p100_def p200_def)
  from ins ok have 1: "\<exists>r. snd (handleSubmit admin_scenario p100 None []) = [r]
        \<and> hashed_fields r = p100 \<and> qr_hash r = generateProductHash p100 \<and> fingerprint_ok r"
    by auto
  from upd ok' fresh have 2: "\<exists>r. handleSubmit_image admin_scenario NoImageSelected p
            (Some (registered p100 (js ''1'')))
            [registered p100 (js ''1''), registered p200 (js ''2'')]
          = [r, registered p200 (js ''2'')]
        \<and> hashed_fields r = p \<and> qr_hash r = generateProductHash p \<and> fingerprint_ok r"
    by auto
  from 1 2 show ?thesis
    by (simp add: p_def)
qed

end
